theory Spec2Isabelle
  imports Complex_Main
begin

section \<open>Numbers\<close>

text \<open>
  The program computes with JavaScript numbers.  They are modelled by the real numbers:
  rounding, overflow and signed zeros are outside the model.  The one operation of the
  program whose result can leave the finite numbers on finite operands is the division in
  \<open>reportMove\<close>: HOL's \<open>x / 0\<close> is \<open>0\<close>, JavaScript's is \<open>Infinity\<close>, \<open>-Infinity\<close> or
  \<open>NaN\<close>.  The result of that division is therefore a \<open>jsnum\<close>.
\<close>

datatype jsnum = Num real | PosInfinity | NegInfinity | NaN

definition js_div :: "real \<Rightarrow> real \<Rightarrow> jsnum" where
  "js_div x d =
     (if d = 0
      then (if 0 < x then PosInfinity else if x < 0 then NegInfinity else NaN)
      else Num (x / d))"

text \<open>
  \<open>Math.atan2(y, x)\<close> on finite operands: the angle in \<open>(-pi, pi]\<close> of the point
  \<open>(x, y)\<close>, and \<open>0\<close> at the origin.
\<close>

definition atan2 :: "real \<Rightarrow> real \<Rightarrow> real" where
  "atan2 y x =
     (if 0 < x then arctan (y / x)
      else if x < 0 then (if 0 \<le> y then arctan (y / x) + pi else arctan (y / x) - pi)
      else if 0 < y then pi / 2
      else if y < 0 then - (pi / 2)
      else 0)"

section \<open>Shared values of the animation library\<close>

text \<open>
  A shared value holds a number and, after \<open>sv.value = withSpring(to, config)\<close>, the
  animation attached to it.  The library's setter first cancels an animation attached
  before.  Given a plain number, it stores the number.  Given an animation, it attaches
  nothing when the number held already equals the animation's target; otherwise it
  attaches the animation, which starts from the number held at that moment and which
  later frames of the library move towards the target.
\<close>

record spring_config =
  damping :: real
  stiffness :: real

datatype animation = withSpring real spring_config

record shared_value =
  current :: real
  running :: "animation option"

definition useSharedValue :: "real \<Rightarrow> shared_value" where
  "useSharedValue v = \<lparr>current = v, running = None\<rparr>"

definition set_value :: "real \<Rightarrow> shared_value \<Rightarrow> shared_value" where
  "set_value v sv = \<lparr>current = v, running = None\<rparr>"

definition set_animation :: "animation \<Rightarrow> shared_value \<Rightarrow> shared_value" where
  "set_animation a sv =
     (case a of
        withSpring toValue config \<Rightarrow>
          (if current sv = toValue then sv\<lparr>running := None\<rparr> else sv\<lparr>running := Some a\<rparr>))"

section \<open>The joystick (src/components/game/Joystick.tsx)\<close>

text \<open>
  The props of the component.  Every prop is optional; \<open>size\<close> (here \<open>size_prop\<close>, since
  \<open>size\<close> is a constant of HOL) and \<open>stickSize\<close> default to 150 and 60.  The callback is
  kept abstract: \<open>'cb\<close> is the type of callbacks.
\<close>

record 'cb JoystickProps =
  onMove :: "'cb option"
  size_prop :: "real option"
  stickSize :: "real option"
  baseColor :: "string option"
  stickColor :: "string option"

definition size_of :: "'cb JoystickProps \<Rightarrow> real" where
  "size_of p = (case size_prop p of None \<Rightarrow> 150 | Some v \<Rightarrow> v)"

definition stickSize_of :: "'cb JoystickProps \<Rightarrow> real" where
  "stickSize_of p = (case stickSize p of None \<Rightarrow> 60 | Some v \<Rightarrow> v)"

definition maxDistance :: "'cb JoystickProps \<Rightarrow> real" where
  "maxDistance p = (size_of p - stickSize_of p) / 2"

text \<open>The state of one joystick: the two shared values that carry the stick's offset.\<close>

record joystick =
  translateX :: shared_value
  translateY :: shared_value

text \<open>
  The component body declares the two shared values and computes \<open>maxDistance\<close>.  It has
  no \<open>throw\<close> and inspects no prop: the result is always an instance (\<open>Inr\<close>).
\<close>

datatype config_error = ConfigError

definition initial_joystick :: joystick where
  "initial_joystick = \<lparr>translateX = useSharedValue 0, translateY = useSharedValue 0\<rparr>"

definition Joystick :: "'cb JoystickProps \<Rightarrow> config_error + joystick" where
  "Joystick p = Inr initial_joystick"

text \<open>
  \<open>scheduleOnRN(onMove, x, y)\<close> queues one call of the callback with two arguments.  A
  handler returns the new state together with the calls it has queued, in order.
\<close>

type_synonym 'cb call = "'cb \<times> jsnum \<times> jsnum"

definition reportMove :: "'cb JoystickProps \<Rightarrow> real \<Rightarrow> real \<Rightarrow> 'cb call list" where
  "reportMove p x y =
     (case onMove p of
        Some f \<Rightarrow>
          (let normalizedX = js_div x (maxDistance p);
               normalizedY = js_div y (maxDistance p)
           in [(f, normalizedX, normalizedY)])
      | None \<Rightarrow> [])"

record pan_event =
  translationX :: real
  translationY :: real

definition onUpdate :: "'cb JoystickProps \<Rightarrow> pan_event \<Rightarrow> joystick \<Rightarrow> joystick \<times> 'cb call list" where
  "onUpdate p event s =
     (let distance = sqrt ((translationX event)\<^sup>2 + (translationY event)\<^sup>2);
          s' = (if distance \<le> maxDistance p
                then s\<lparr>translateX := set_value (translationX event) (translateX s),
                       translateY := set_value (translationY event) (translateY s)\<rparr>
                else (let angle = atan2 (translationY event) (translationX event)
                      in s\<lparr>translateX := set_value (cos angle * maxDistance p) (translateX s),
                            translateY := set_value (sin angle * maxDistance p) (translateY s)\<rparr>))
      in (s', reportMove p (current (translateX s')) (current (translateY s'))))"

definition onEnd :: "'cb JoystickProps \<Rightarrow> joystick \<Rightarrow> joystick \<times> 'cb call list" where
  "onEnd p s =
     (let s' = s\<lparr>translateX :=
                   set_animation (withSpring 0 \<lparr>damping = 15, stiffness = 150\<rparr>) (translateX s),
                 translateY :=
                   set_animation (withSpring 0 \<lparr>damping = 15, stiffness = 150\<rparr>) (translateY s)\<rparr>
      in (s', reportMove p 0 0))"

text \<open>The animated style: the stick is drawn at the offset the shared values hold.\<close>

definition animatedStyle :: "joystick \<Rightarrow> real \<times> real" where
  "animatedStyle s = (current (translateX s), current (translateY s))"

section \<open>The game screen (src/app/index.tsx)\<close>

text \<open>
  The four shared values of the screen.  They only ever receive plain numbers, so each is
  modelled by the number it holds.
\<close>

record game =
  characterX :: real
  characterY :: real
  joystickX :: real
  joystickY :: real

text \<open>
  The body of the frame callback.  \<open>width\<close> and \<open>height\<close> are the window's dimensions, read
  once from the platform.  The source fixes \<open>moveSpeed = 5\<close> and \<open>characterSize = 50\<close>;
  here both are parameters, so that properties can be stated for every speed, and
  \<open>frameCallback\<close> below is the instance the screen runs.
\<close>

definition tick :: "real \<Rightarrow> real \<Rightarrow> real \<Rightarrow> real \<Rightarrow> game \<Rightarrow> game" where
  "tick width height speed csize g =
     (if joystickX g \<noteq> 0 \<or> joystickY g \<noteq> 0
      then (let newX = characterX g + joystickX g * speed;
                newY = characterY g + joystickY g * speed;
                minX = csize / 2;
                maxX = width - csize / 2;
                minY = csize / 2;
                maxY = height - csize / 2
            in g\<lparr>characterX := max minX (min maxX newX),
                 characterY := max minY (min maxY newY)\<rparr>)
      else g)"

definition moveSpeed :: real where
  "moveSpeed = 5"

definition characterSize :: real where
  "characterSize = 50"

definition frameCallback :: "real \<Rightarrow> real \<Rightarrow> game \<Rightarrow> game" where
  "frameCallback width height g = tick width height moveSpeed characterSize g"

definition handleJoystickMove :: "real \<Rightarrow> real \<Rightarrow> game \<Rightarrow> game" where
  "handleJoystickMove x y g = g\<lparr>joystickX := x, joystickY := y\<rparr>"

definition GameScreen :: "real \<Rightarrow> real \<Rightarrow> game" where
  "GameScreen width height =
     \<lparr>characterX = width / 2, characterY = height / 2, joystickX = 0, joystickY = 0\<rparr>"

text \<open>
  What happens to the screen over time: a display refresh runs the frame callback, a
  joystick report runs \<open>handleJoystickMove\<close>.  \<open>run\<close> applies a sequence of such events.
\<close>

datatype game_event = Frame | JoystickMove real real

fun step :: "real \<Rightarrow> real \<Rightarrow> real \<Rightarrow> real \<Rightarrow> game_event \<Rightarrow> game \<Rightarrow> game" where
  "step width height speed csize Frame g = tick width height speed csize g"
| "step width height speed csize (JoystickMove x y) g = handleJoystickMove x y g"

fun run :: "real \<Rightarrow> real \<Rightarrow> real \<Rightarrow> real \<Rightarrow> game_event list \<Rightarrow> game \<Rightarrow> game" where
  "run width height speed csize [] g = g"
| "run width height speed csize (ev # evs) g =
     run width height speed csize evs (step width height speed csize ev g)"

text \<open>The rectangle the clamp of the frame callback targets, as a predicate on the state.\<close>

definition inBounds :: "real \<Rightarrow> real \<Rightarrow> real \<Rightarrow> game \<Rightarrow> bool" where
  "inBounds width height csize g \<longleftrightarrow>
     csize / 2 \<le> characterX g \<and> characterX g \<le> width - csize / 2 \<and>
     csize / 2 \<le> characterY g \<and> characterY g \<le> height - csize / 2"

section \<open>Configurations used in the examples\<close>

text \<open>
  The game screen renders one joystick, with \<open>handleJoystickMove\<close> as its callback, a base
  of 150 and a stick of 60.
\<close>

datatype callback = HandleJoystickMove

definition GameScreen_joystick :: "callback JoystickProps" where
  "GameScreen_joystick =
     \<lparr>onMove = Some HandleJoystickMove, size_prop = Some 150, stickSize = Some 60,
      baseColor = Some ''rgba(100, 100, 100, 0.3)'',
      stickColor = Some ''rgba(50, 50, 50, 0.7)''\<rparr>"

text \<open>Two joysticks whose stick is not smaller than the base.\<close>

definition equal_sizes :: "callback JoystickProps" where
  "equal_sizes =
     \<lparr>onMove = Some HandleJoystickMove, size_prop = Some 60, stickSize = Some 60,
      baseColor = None, stickColor = None\<rparr>"

definition oversized_stick :: "callback JoystickProps" where
  "oversized_stick =
     \<lparr>onMove = Some HandleJoystickMove, size_prop = Some 60, stickSize = Some 150,
      baseColor = None, stickColor = None\<rparr>"

text \<open>
  The configurations the specification calls misconfigured: a non-positive size, a
  non-positive stick size, or a stick at least as large as the base.  This predicate
  follows the specification's words; the source has no counterpart.
\<close>

definition misconfigured :: "'cb JoystickProps \<Rightarrow> bool" where
  "misconfigured p \<longleftrightarrow> size_of p \<le> 0 \<or> stickSize_of p \<le> 0 \<or> size_of p \<le> stickSize_of p"

section \<open>Facts about the joystick\<close>

lemma maxDistance_GameScreen_joystick: "maxDistance GameScreen_joystick = 45"
  by (simp add: maxDistance_def size_of_def stickSize_of_def GameScreen_joystick_def)

lemma onMove_GameScreen_joystick: "onMove GameScreen_joystick = Some HandleJoystickMove"
  by (simp add: GameScreen_joystick_def)

lemma maxDistance_equal_sizes: "maxDistance equal_sizes = 0"
  by (simp add: maxDistance_def size_of_def stickSize_of_def equal_sizes_def)

lemma onMove_equal_sizes: "onMove equal_sizes = Some HandleJoystickMove"
  by (simp add: equal_sizes_def)

lemma reportMove_Some:
  "onMove p = Some f \<Longrightarrow> maxDistance p \<noteq> 0 \<Longrightarrow>
   reportMove p x y = [(f, Num (x / maxDistance p), Num (y / maxDistance p))]"
  by (simp add: reportMove_def js_div_def)

lemma reportMove_zero:
  "onMove p = Some f \<Longrightarrow> maxDistance p = 0 \<Longrightarrow> reportMove p 0 0 = [(f, NaN, NaN)]"
  by (simp add: reportMove_def js_div_def)

lemma onUpdate_inside:
  "sqrt ((translationX e)\<^sup>2 + (translationY e)\<^sup>2) \<le> maxDistance p \<Longrightarrow>
   onUpdate p e s =
     (s\<lparr>translateX := set_value (translationX e) (translateX s),
        translateY := set_value (translationY e) (translateY s)\<rparr>,
      reportMove p (translationX e) (translationY e))"
  by (simp add: onUpdate_def Let_def set_value_def)

lemma onUpdate_outside:
  "maxDistance p < sqrt ((translationX e)\<^sup>2 + (translationY e)\<^sup>2) \<Longrightarrow>
   onUpdate p e s =
     (s\<lparr>translateX :=
          set_value (cos (atan2 (translationY e) (translationX e)) * maxDistance p) (translateX s),
        translateY :=
          set_value (sin (atan2 (translationY e) (translationX e)) * maxDistance p) (translateY s)\<rparr>,
      reportMove p (cos (atan2 (translationY e) (translationX e)) * maxDistance p)
                   (sin (atan2 (translationY e) (translationX e)) * maxDistance p))"
  by (simp add: onUpdate_def Let_def set_value_def)

text \<open>
  Claim C1.  While the drag stays within the circle of radius \<open>maxDistance\<close>, and
  \<open>maxDistance\<close> is positive, a drag update queues exactly one call of the listener, with
  the displacement divided by \<open>maxDistance\<close> on each axis.
\<close>

theorem onUpdate_inside_reports_scaled_displacement:
  assumes "onMove p = Some f" and "0 < maxDistance p"
    and "sqrt ((translationX e)\<^sup>2 + (translationY e)\<^sup>2) \<le> maxDistance p"
  shows "snd (onUpdate p e s) =
           [(f, Num (translationX e / maxDistance p), Num (translationY e / maxDistance p))]"
  using assms by (simp add: onUpdate_inside reportMove_Some)

text \<open>The first scenario: base 150, stick 60, a drag of \<open>(30, 0)\<close>.\<close>

theorem onUpdate_inside_reports_scaled_displacement_witness:
  "maxDistance GameScreen_joystick = 45 \<and>
   snd (onUpdate GameScreen_joystick \<lparr>translationX = 30, translationY = 0\<rparr> initial_joystick)
     = [(HandleJoystickMove, Num (30 / 45), Num 0)]"
proof -
  have "sqrt ((30::real)\<^sup>2 + 0\<^sup>2) \<le> 45"
    by (rule real_le_lsqrt) simp_all
  then show ?thesis
    using onUpdate_inside_reports_scaled_displacement
      [of GameScreen_joystick HandleJoystickMove "\<lparr>translationX = 30, translationY = 0\<rparr>"
        initial_joystick]
    by (simp add: maxDistance_GameScreen_joystick onMove_GameScreen_joystick)
qed

subsection \<open>The angle of a displacement\<close>

lemma sqrt_one_plus_ratio:
  assumes "x \<noteq> 0"
  shows "sqrt (1 + (y / x)\<^sup>2) = sqrt (x\<^sup>2 + y\<^sup>2) / \<bar>x\<bar>"
proof -
  have "1 + (y / x)\<^sup>2 = (x\<^sup>2 + y\<^sup>2) / x\<^sup>2"
    using assms by (simp add: field_simps power2_eq_square)
  then show ?thesis
    by (simp add: real_sqrt_divide)
qed

lemma cos_arctan_ratio:
  assumes "x \<noteq> 0"
  shows "cos (arctan (y / x)) = \<bar>x\<bar> / sqrt (x\<^sup>2 + y\<^sup>2)"
  using assms by (simp add: cos_arctan sqrt_one_plus_ratio)

lemma sin_arctan_ratio:
  assumes "x \<noteq> 0"
  shows "sin (arctan (y / x)) = (y / x) * \<bar>x\<bar> / sqrt (x\<^sup>2 + y\<^sup>2)"
  using assms by (simp add: sin_arctan sqrt_one_plus_ratio)

text \<open>\<open>atan2\<close> is the angle of the point: its cosine and sine are the normalised coordinates.\<close>

lemma cos_atan2:
  assumes "x \<noteq> 0 \<or> y \<noteq> 0"
  shows "cos (atan2 y x) = x / sqrt (x\<^sup>2 + y\<^sup>2)"
proof -
  consider "0 < x" | "x < 0" | "x = 0" "y \<noteq> 0"
    using assms by fastforce
  then show ?thesis
  proof cases
    case 1
    then show ?thesis by (simp add: atan2_def cos_arctan_ratio)
  next
    case 2
    then show ?thesis by (simp add: atan2_def cos_arctan_ratio)
  next
    case 3
    then show ?thesis by (simp add: atan2_def)
  qed
qed

lemma sin_atan2:
  assumes "x \<noteq> 0 \<or> y \<noteq> 0"
  shows "sin (atan2 y x) = y / sqrt (x\<^sup>2 + y\<^sup>2)"
proof -
  consider "0 < x" | "x < 0" | "x = 0" "0 < y" | "x = 0" "y < 0"
    using assms by fastforce
  then show ?thesis
  proof cases
    case 1
    then show ?thesis by (simp add: atan2_def sin_arctan_ratio)
  next
    case 2
    then show ?thesis by (simp add: atan2_def sin_arctan_ratio)
  next
    case 3
    then show ?thesis by (simp add: atan2_def)
  next
    case 4
    then show ?thesis by (simp add: atan2_def)
  qed
qed

lemma atan2_range: "- pi < atan2 y x \<and> atan2 y x \<le> pi"
proof -
  have b: "- (pi / 2) < arctan (y / x)" "arctan (y / x) < pi / 2"
    by (rule arctan_lbound, rule arctan_ubound)
  have "0 \<le> y \<Longrightarrow> x < 0 \<Longrightarrow> arctan (y / x) \<le> 0"
    by (simp add: divide_nonneg_neg arctan_le_zero_iff)
  moreover have "y < 0 \<Longrightarrow> x < 0 \<Longrightarrow> 0 < arctan (y / x)"
    by (simp add: divide_neg_neg zero_less_arctan_iff)
  ultimately show ?thesis
    using b pi_gt_zero by (auto simp: atan2_def)
qed

text \<open>
  Claim C2.  When the drag leaves the circle of radius \<open>maxDistance > 0\<close>, a drag update
  queues exactly one call of the listener, with the cosine and the sine of
  \<open>atan2 dy dx\<close>: a vector of magnitude 1 that points along the drag.
\<close>

theorem onUpdate_outside_reports_unit_vector:
  assumes "onMove p = Some f" and "0 < maxDistance p"
    and "maxDistance p < sqrt ((translationX e)\<^sup>2 + (translationY e)\<^sup>2)"
  shows "snd (onUpdate p e s) =
           [(f, Num (cos (atan2 (translationY e) (translationX e))),
                Num (sin (atan2 (translationY e) (translationX e))))]
         \<and> sqrt ((cos (atan2 (translationY e) (translationX e)))\<^sup>2
                 + (sin (atan2 (translationY e) (translationX e)))\<^sup>2) = 1
         \<and> cos (atan2 (translationY e) (translationX e))
             = translationX e / sqrt ((translationX e)\<^sup>2 + (translationY e)\<^sup>2)
         \<and> sin (atan2 (translationY e) (translationX e))
             = translationY e / sqrt ((translationX e)\<^sup>2 + (translationY e)\<^sup>2)"
proof -
  have "translationX e \<noteq> 0 \<or> translationY e \<noteq> 0"
    using assms(2,3) by auto
  then have dir:
    "cos (atan2 (translationY e) (translationX e))
       = translationX e / sqrt ((translationX e)\<^sup>2 + (translationY e)\<^sup>2)"
    "sin (atan2 (translationY e) (translationX e))
       = translationY e / sqrt ((translationX e)\<^sup>2 + (translationY e)\<^sup>2)"
    by (rule cos_atan2, rule sin_atan2)
  have rep: "snd (onUpdate p e s) =
           [(f, Num (cos (atan2 (translationY e) (translationX e))),
                Num (sin (atan2 (translationY e) (translationX e))))]"
    using assms by (simp add: onUpdate_outside reportMove_Some)
  have mag: "sqrt ((cos (atan2 (translationY e) (translationX e)))\<^sup>2
                 + (sin (atan2 (translationY e) (translationX e)))\<^sup>2) = 1"
    by simp
  from rep mag dir show ?thesis
    by blast
qed

text \<open>The second scenario: base 150, stick 60, a drag of \<open>(100, 0)\<close>.\<close>

theorem onUpdate_outside_reports_unit_vector_witness:
  "maxDistance GameScreen_joystick = 45 \<and>
   snd (onUpdate GameScreen_joystick \<lparr>translationX = 100, translationY = 0\<rparr> initial_joystick)
     = [(HandleJoystickMove, Num 1, Num 0)]"
proof -
  have "(45::real) < sqrt (100\<^sup>2 + 0\<^sup>2)"
    by (rule real_less_rsqrt) simp
  then show ?thesis
    using onUpdate_outside_reports_unit_vector
      [of GameScreen_joystick HandleJoystickMove "\<lparr>translationX = 100, translationY = 0\<rparr>"
        initial_joystick]
    by (simp add: maxDistance_GameScreen_joystick onMove_GameScreen_joystick atan2_def)
qed

lemma unit_disc_inside:
  assumes "0 < m" and "sqrt (a\<^sup>2 + b\<^sup>2) \<le> m"
  shows "sqrt ((a / m)\<^sup>2 + (b / m)\<^sup>2) \<le> 1"
proof -
  have "(a / m)\<^sup>2 + (b / m)\<^sup>2 = (a\<^sup>2 + b\<^sup>2) / m\<^sup>2"
    by (simp add: power_divide add_divide_distrib)
  then have "sqrt ((a / m)\<^sup>2 + (b / m)\<^sup>2) = sqrt (a\<^sup>2 + b\<^sup>2) / m"
    using assms(1) by (simp add: real_sqrt_divide)
  then show ?thesis
    using assms by simp
qed

text \<open>
  Claim C3.  With \<open>maxDistance > 0\<close>, the vector a drag update passes to the listener is
  the displacement divided by \<open>maxDistance\<close> inside the circle and the unit vector of the
  circle projection outside, with nothing else applied to either axis; its magnitude is at
  most 1, hence each component lies in \<open>[-1, 1]\<close>.
\<close>

theorem onUpdate_report_in_unit_disc:
  assumes "onMove p = Some f" and "0 < maxDistance p"
  shows "\<exists>x y. snd (onUpdate p e s) = [(f, Num x, Num y)]
           \<and> (x, y) =
               (if sqrt ((translationX e)\<^sup>2 + (translationY e)\<^sup>2) \<le> maxDistance p
                then (translationX e / maxDistance p, translationY e / maxDistance p)
                else (cos (atan2 (translationY e) (translationX e)),
                      sin (atan2 (translationY e) (translationX e))))
           \<and> sqrt (x\<^sup>2 + y\<^sup>2) \<le> 1 \<and> \<bar>x\<bar> \<le> 1 \<and> \<bar>y\<bar> \<le> 1"
proof (cases "sqrt ((translationX e)\<^sup>2 + (translationY e)\<^sup>2) \<le> maxDistance p")
  case True
  let ?x = "translationX e / maxDistance p"
  let ?y = "translationY e / maxDistance p"
  have rep: "snd (onUpdate p e s) = [(f, Num ?x, Num ?y)]"
    using assms True by (simp add: onUpdate_inside reportMove_Some)
  have mag: "sqrt (?x\<^sup>2 + ?y\<^sup>2) \<le> 1"
    using assms(2) True by (rule unit_disc_inside)
  have "\<bar>?x\<bar> \<le> sqrt (?x\<^sup>2 + ?y\<^sup>2)" and "\<bar>?y\<bar> \<le> sqrt (?x\<^sup>2 + ?y\<^sup>2)"
    by (rule real_sqrt_ge_abs1, rule real_sqrt_ge_abs2)
  with mag have "\<bar>?x\<bar> \<le> 1" and "\<bar>?y\<bar> \<le> 1"
    by linarith+
  with rep mag True show ?thesis
    by simp
next
  case False
  let ?a = "atan2 (translationY e) (translationX e)"
  have rep: "snd (onUpdate p e s) = [(f, Num (cos ?a), Num (sin ?a))]"
    using assms False by (simp add: onUpdate_outside reportMove_Some)
  with False show ?thesis
    by simp
qed

text \<open>
  A diagonal drag far outside the circle: the report is the projection
  \<open>(sqrt 2 / 2, sqrt 2 / 2)\<close>, not the per-axis clamp \<open>(1, 1)\<close>.
\<close>

theorem onUpdate_report_in_unit_disc_witness:
  "0 < maxDistance GameScreen_joystick \<and>
   snd (onUpdate GameScreen_joystick \<lparr>translationX = 100, translationY = 100\<rparr> initial_joystick)
     = [(HandleJoystickMove, Num (sqrt 2 / 2), Num (sqrt 2 / 2))] \<and>
   sqrt ((sqrt 2 / 2)\<^sup>2 + (sqrt 2 / 2)\<^sup>2) \<le> 1"
proof -
  let ?e = "\<lparr>translationX = 100, translationY = 100\<rparr>"
  have far: "maxDistance GameScreen_joystick < sqrt ((translationX ?e)\<^sup>2 + (translationY ?e)\<^sup>2)"
    unfolding maxDistance_GameScreen_joystick by (rule real_less_rsqrt) simp
  have rep: "snd (onUpdate GameScreen_joystick ?e initial_joystick)
               = [(HandleJoystickMove, Num (sqrt 2 / 2), Num (sqrt 2 / 2))]"
    by (simp add: onUpdate_outside [OF far] reportMove_Some onMove_GameScreen_joystick
        maxDistance_GameScreen_joystick atan2_def arctan_one cos_45 sin_45)
  obtain x y where xy: "snd (onUpdate GameScreen_joystick ?e initial_joystick)
                          = [(HandleJoystickMove, Num x, Num y)]"
      "sqrt (x\<^sup>2 + y\<^sup>2) \<le> 1"
    using onUpdate_report_in_unit_disc [of GameScreen_joystick HandleJoystickMove ?e initial_joystick]
    by (auto simp: maxDistance_GameScreen_joystick onMove_GameScreen_joystick)
  from xy(1) rep have "x = sqrt 2 / 2" "y = sqrt 2 / 2"
    by simp_all
  with xy(2) rep show ?thesis
    by (simp add: maxDistance_GameScreen_joystick)
qed

subsection \<open>The end of a drag\<close>

lemma set_animation_attaches:
  "current sv \<noteq> toValue \<Longrightarrow>
   running (set_animation (withSpring toValue config) sv) = Some (withSpring toValue config)"
  by (simp add: set_animation_def)

lemma set_animation_at_target:
  "current sv = toValue \<Longrightarrow> running (set_animation (withSpring toValue config) sv) = None"
  by (simp add: set_animation_def)

lemma onEnd_state:
  "fst (onEnd p s) =
     s\<lparr>translateX :=
         set_animation (withSpring 0 \<lparr>damping = 15, stiffness = 150\<rparr>) (translateX s),
       translateY :=
         set_animation (withSpring 0 \<lparr>damping = 15, stiffness = 150\<rparr>) (translateY s)\<rparr>"
  by (simp add: onEnd_def Let_def)

lemma onEnd_calls: "snd (onEnd p s) = reportMove p 0 0"
  by (simp add: onEnd_def Let_def)




subsection \<open>Joysticks whose stick is not smaller than the base\<close>

lemma onUpdate_zero_maxDistance:
  assumes "onMove p = Some f" and "maxDistance p = 0"
  shows "snd (onUpdate p e s) = [(f, NaN, NaN)]"
proof (cases "sqrt ((translationX e)\<^sup>2 + (translationY e)\<^sup>2) \<le> maxDistance p")
  case True
  with assms(2) have "(translationX e)\<^sup>2 + (translationY e)\<^sup>2 \<le> 0"
    by simp
  then have "translationX e = 0" and "translationY e = 0"
    by (simp_all add: sum_power2_le_zero_iff)
  with True assms show ?thesis
    by (simp add: onUpdate_inside reportMove_zero)
next
  case False
  with assms show ?thesis
    by (simp add: onUpdate_outside reportMove_zero)
qed

lemma onUpdate_negative_maxDistance:
  assumes "onMove p = Some f" and "maxDistance p < 0"
  shows "snd (onUpdate p e s) =
           [(f, Num (cos (atan2 (translationY e) (translationX e))),
                Num (sin (atan2 (translationY e) (translationX e))))]"
proof -
  have "0 \<le> sqrt ((translationX e)\<^sup>2 + (translationY e)\<^sup>2)"
    by simp
  with assms(2) have "maxDistance p < sqrt ((translationX e)\<^sup>2 + (translationY e)\<^sup>2)"
    by linarith
  with assms show ?thesis
    by (simp add: onUpdate_outside reportMove_Some)
qed

lemma misconfigured_equal_sizes: "misconfigured equal_sizes"
  by (simp add: misconfigured_def size_of_def stickSize_of_def equal_sizes_def)

text \<open>
  Claim C8, as amended.  Constructing a joystick never fails, whatever its sizes: no prop
  is validated.  What a misconfigured joystick reports is decided by \<open>maxDistance\<close> alone:
  when it is zero (stick as large as the base), every drag update and every drag end
  reports \<open>(NaN, NaN)\<close>; when it is negative (stick larger than the base), every drag
  update reports the unit vector at the angle of the drag.
\<close>

theorem Joystick_never_rejects:
  "Joystick p = Inr initial_joystick \<and>
   (onMove p = Some f \<longrightarrow> maxDistance p = 0 \<longrightarrow>
      snd (onUpdate p e s) = [(f, NaN, NaN)] \<and> snd (onEnd p s) = [(f, NaN, NaN)]) \<and>
   (onMove p = Some f \<longrightarrow> maxDistance p < 0 \<longrightarrow>
      snd (onUpdate p e s) =
        [(f, Num (cos (atan2 (translationY e) (translationX e))),
             Num (sin (atan2 (translationY e) (translationX e))))])"
proof -
  have "Joystick p = Inr initial_joystick"
    by (simp add: Joystick_def)
  moreover have "snd (onEnd p s) = [(f, NaN, NaN)]" if "onMove p = Some f" "maxDistance p = 0"
    using that by (simp add: onEnd_def Let_def reportMove_zero)
  ultimately show ?thesis
    using onUpdate_zero_maxDistance [of p f e s] onUpdate_negative_maxDistance [of p f e s]
    by blast
qed

theorem Joystick_never_rejects_witness:
  "maxDistance equal_sizes = 0 \<and> maxDistance oversized_stick < 0 \<and>
   Joystick equal_sizes = Inr initial_joystick \<and>
   snd (onUpdate equal_sizes \<lparr>translationX = 0, translationY = 0\<rparr> initial_joystick)
     = [(HandleJoystickMove, NaN, NaN)] \<and>
   snd (onEnd equal_sizes initial_joystick) = [(HandleJoystickMove, NaN, NaN)] \<and>
   snd (onUpdate oversized_stick \<lparr>translationX = 0, translationY = 0\<rparr> initial_joystick)
     = [(HandleJoystickMove, Num 1, Num 0)]"
proof -
  have m1: "maxDistance oversized_stick < 0"
    by (simp add: maxDistance_def size_of_def stickSize_of_def oversized_stick_def)
  have f1: "onMove oversized_stick = Some HandleJoystickMove"
    by (simp add: oversized_stick_def)
  show ?thesis
    using
      Joystick_never_rejects
        [of equal_sizes HandleJoystickMove "\<lparr>translationX = 0, translationY = 0\<rparr>" initial_joystick]
      Joystick_never_rejects
        [of oversized_stick HandleJoystickMove "\<lparr>translationX = 0, translationY = 0\<rparr>" initial_joystick]
      maxDistance_equal_sizes onMove_equal_sizes m1 f1
    by (simp add: atan2_def)
qed

text \<open>
  The claim as the specification states it fails: a joystick whose stick is as large as
  its base is misconfigured, yet its construction returns an instance, and a drag of
  \<open>(30, 0)\<close> then reports \<open>(NaN, NaN)\<close>.
\<close>

theorem Joystick_accepts_equal_sizes:
  "misconfigured equal_sizes \<and>
   Joystick equal_sizes = Inr initial_joystick \<and>
   snd (onUpdate equal_sizes \<lparr>translationX = 30, translationY = 0\<rparr> initial_joystick)
     = [(HandleJoystickMove, NaN, NaN)]"
proof -
  have "Joystick equal_sizes = Inr initial_joystick"
    by (simp add: Joystick_def)
  moreover have "snd (onUpdate equal_sizes \<lparr>translationX = 30, translationY = 0\<rparr> initial_joystick)
                   = [(HandleJoystickMove, NaN, NaN)]"
    using onMove_equal_sizes maxDistance_equal_sizes by (rule onUpdate_zero_maxDistance)
  ultimately show ?thesis
    using misconfigured_equal_sizes by blast
qed

subsection \<open>A joystick without a listener\<close>

text \<open>
  Claim C9.  Without \<open>onMove\<close>, a drag update and a drag end leave the joystick in the
  very state they leave it in with a listener, and they queue no call.  The drag update
  stores the stick's offset by the same rule (the displacement inside the circle, its
  projection outside) and leaves no animation attached.  The drag end assigns the spring
  back to zero to both axes, which attaches it to every axis whose offset is not yet zero.
\<close>

theorem onMove_absent_same_state_no_call:
  "fst (onUpdate (p\<lparr>onMove := None\<rparr>) e s) = fst (onUpdate (p\<lparr>onMove := Some f\<rparr>) e s) \<and>
   snd (onUpdate (p\<lparr>onMove := None\<rparr>) e s) = [] \<and>
   animatedStyle (fst (onUpdate (p\<lparr>onMove := None\<rparr>) e s)) =
     (if sqrt ((translationX e)\<^sup>2 + (translationY e)\<^sup>2) \<le> maxDistance p
      then (translationX e, translationY e)
      else (cos (atan2 (translationY e) (translationX e)) * maxDistance p,
            sin (atan2 (translationY e) (translationX e)) * maxDistance p)) \<and>
   running (translateX (fst (onUpdate (p\<lparr>onMove := None\<rparr>) e s))) = None \<and>
   running (translateY (fst (onUpdate (p\<lparr>onMove := None\<rparr>) e s))) = None \<and>
   fst (onEnd (p\<lparr>onMove := None\<rparr>) s) = fst (onEnd (p\<lparr>onMove := Some f\<rparr>) s) \<and>
   snd (onEnd (p\<lparr>onMove := None\<rparr>) s) = [] \<and>
   fst (onEnd (p\<lparr>onMove := None\<rparr>) s) =
     s\<lparr>translateX :=
         set_animation (withSpring 0 \<lparr>damping = 15, stiffness = 150\<rparr>) (translateX s),
       translateY :=
         set_animation (withSpring 0 \<lparr>damping = 15, stiffness = 150\<rparr>) (translateY s)\<rparr> \<and>
   (current (translateX s) \<noteq> 0 \<longrightarrow>
      running (translateX (fst (onEnd (p\<lparr>onMove := None\<rparr>) s)))
        = Some (withSpring 0 \<lparr>damping = 15, stiffness = 150\<rparr>)) \<and>
   (current (translateY s) \<noteq> 0 \<longrightarrow>
      running (translateY (fst (onEnd (p\<lparr>onMove := None\<rparr>) s)))
        = Some (withSpring 0 \<lparr>damping = 15, stiffness = 150\<rparr>))"
proof -
  have upd: "fst (onUpdate (p\<lparr>onMove := None\<rparr>) e s) = fst (onUpdate (p\<lparr>onMove := Some f\<rparr>) e s) \<and>
      snd (onUpdate (p\<lparr>onMove := None\<rparr>) e s) = [] \<and>
      animatedStyle (fst (onUpdate (p\<lparr>onMove := None\<rparr>) e s)) =
        (if sqrt ((translationX e)\<^sup>2 + (translationY e)\<^sup>2) \<le> maxDistance p
         then (translationX e, translationY e)
         else (cos (atan2 (translationY e) (translationX e)) * maxDistance p,
               sin (atan2 (translationY e) (translationX e)) * maxDistance p)) \<and>
      running (translateX (fst (onUpdate (p\<lparr>onMove := None\<rparr>) e s))) = None \<and>
      running (translateY (fst (onUpdate (p\<lparr>onMove := None\<rparr>) e s))) = None"
    by (simp add: onUpdate_def Let_def reportMove_def maxDistance_def size_of_def
        stickSize_of_def animatedStyle_def set_value_def)
  have fin: "fst (onEnd (p\<lparr>onMove := None\<rparr>) s) = fst (onEnd (p\<lparr>onMove := Some f\<rparr>) s) \<and>
      snd (onEnd (p\<lparr>onMove := None\<rparr>) s) = []"
    by (simp add: onEnd_state onEnd_calls reportMove_def)
  have spr: "(current (translateX s) \<noteq> 0 \<longrightarrow>
        running (translateX (fst (onEnd (p\<lparr>onMove := None\<rparr>) s)))
          = Some (withSpring 0 \<lparr>damping = 15, stiffness = 150\<rparr>)) \<and>
      (current (translateY s) \<noteq> 0 \<longrightarrow>
        running (translateY (fst (onEnd (p\<lparr>onMove := None\<rparr>) s)))
          = Some (withSpring 0 \<lparr>damping = 15, stiffness = 150\<rparr>))"
    by (simp add: onEnd_state set_animation_attaches)
  from upd fin spr onEnd_state [of "p\<lparr>onMove := None\<rparr>" s] show ?thesis
    by blast
qed

text \<open>
  A drag to \<open>(100, 0)\<close> is stored as \<open>(45, 0)\<close>, with a listener or without.  Ending a
  drag to \<open>(30, 10)\<close> attaches the spring to both axes; ending the drag to \<open>(100, 0)\<close>
  attaches it to the horizontal axis only, the vertical offset being zero already.
\<close>

theorem onMove_absent_same_state_no_call_witness:
  "snd (onUpdate (GameScreen_joystick\<lparr>onMove := None\<rparr>)
          \<lparr>translationX = 100, translationY = 0\<rparr> initial_joystick) = [] \<and>
   animatedStyle
     (fst (onUpdate (GameScreen_joystick\<lparr>onMove := None\<rparr>)
             \<lparr>translationX = 100, translationY = 0\<rparr> initial_joystick)) = (45, 0) \<and>
   animatedStyle
     (fst (onUpdate GameScreen_joystick
             \<lparr>translationX = 100, translationY = 0\<rparr> initial_joystick)) = (45, 0) \<and>
   snd (onEnd (GameScreen_joystick\<lparr>onMove := None\<rparr>) initial_joystick) = [] \<and>
   snd (onEnd (GameScreen_joystick\<lparr>onMove := None\<rparr>)
          (fst (onUpdate (GameScreen_joystick\<lparr>onMove := None\<rparr>)
                  \<lparr>translationX = 30, translationY = 10\<rparr> initial_joystick))) = [] \<and>
   fst (onEnd (GameScreen_joystick\<lparr>onMove := None\<rparr>)
          (fst (onUpdate (GameScreen_joystick\<lparr>onMove := None\<rparr>)
                  \<lparr>translationX = 30, translationY = 10\<rparr> initial_joystick)))
     = \<lparr>translateX =
          \<lparr>current = 30, running = Some (withSpring 0 \<lparr>damping = 15, stiffness = 150\<rparr>)\<rparr>,
        translateY =
          \<lparr>current = 10, running = Some (withSpring 0 \<lparr>damping = 15, stiffness = 150\<rparr>)\<rparr>\<rparr> \<and>
   fst (onEnd (GameScreen_joystick\<lparr>onMove := None\<rparr>)
          (fst (onUpdate (GameScreen_joystick\<lparr>onMove := None\<rparr>)
                  \<lparr>translationX = 100, translationY = 0\<rparr> initial_joystick)))
     = \<lparr>translateX =
          \<lparr>current = 45, running = Some (withSpring 0 \<lparr>damping = 15, stiffness = 150\<rparr>)\<rparr>,
        translateY = \<lparr>current = 0, running = None\<rparr>\<rparr>"
proof -
  let ?p = "GameScreen_joystick\<lparr>onMove := None\<rparr>"
  let ?e = "\<lparr>translationX = 100, translationY = 0\<rparr>"
  let ?d = "\<lparr>translationX = 30, translationY = 10\<rparr>"
  have m: "maxDistance ?p = 45"
    by (simp add: maxDistance_def size_of_def stickSize_of_def GameScreen_joystick_def)
  have far: "maxDistance ?p < sqrt ((translationX ?e)\<^sup>2 + (translationY ?e)\<^sup>2)"
    unfolding m by (rule real_less_rsqrt) simp
  have near: "sqrt ((translationX ?d)\<^sup>2 + (translationY ?d)\<^sup>2) \<le> maxDistance ?p"
    unfolding m by (rule real_le_lsqrt) simp_all
  have s1: "fst (onUpdate ?p ?e initial_joystick)
              = \<lparr>translateX = \<lparr>current = 45, running = None\<rparr>,
                 translateY = \<lparr>current = 0, running = None\<rparr>\<rparr>"
    by (simp add: onUpdate_outside [OF far] m atan2_def set_value_def initial_joystick_def)
  have s2: "fst (onUpdate ?p ?d initial_joystick)
              = \<lparr>translateX = \<lparr>current = 30, running = None\<rparr>,
                 translateY = \<lparr>current = 10, running = None\<rparr>\<rparr>"
    by (simp add: onUpdate_inside [OF near] set_value_def initial_joystick_def)
  have same: "GameScreen_joystick\<lparr>onMove := Some HandleJoystickMove\<rparr> = GameScreen_joystick"
    by (simp add: GameScreen_joystick_def)
  have a: "snd (onUpdate ?p ?e initial_joystick) = []"
    and b: "fst (onUpdate GameScreen_joystick ?e initial_joystick) = fst (onUpdate ?p ?e initial_joystick)"
    and c: "snd (onEnd ?p initial_joystick) = []"
    using onMove_absent_same_state_no_call [of GameScreen_joystick ?e initial_joystick HandleJoystickMove]
    by (simp_all add: same)
  let ?spring = "withSpring 0 \<lparr>damping = 15, stiffness = 150\<rparr>"
  let ?s1 = "fst (onUpdate ?p ?e initial_joystick)"
  let ?s2 = "fst (onUpdate ?p ?d initial_joystick)"
  have d: "snd (onEnd ?p ?s2) = []"
    and f0: "fst (onEnd ?p ?s2) =
               ?s2\<lparr>translateX := set_animation ?spring (translateX ?s2),
                    translateY := set_animation ?spring (translateY ?s2)\<rparr>"
    using onMove_absent_same_state_no_call [of GameScreen_joystick ?d ?s2 HandleJoystickMove]
    by blast+
  have f: "fst (onEnd ?p ?s2)
              = \<lparr>translateX = \<lparr>current = 30, running = Some ?spring\<rparr>,
                 translateY = \<lparr>current = 10, running = Some ?spring\<rparr>\<rparr>"
    unfolding f0 by (simp add: s2 set_animation_def)
  have g0: "fst (onEnd ?p ?s1) =
               ?s1\<lparr>translateX := set_animation ?spring (translateX ?s1),
                    translateY := set_animation ?spring (translateY ?s1)\<rparr>"
    using onMove_absent_same_state_no_call [of GameScreen_joystick ?e ?s1 HandleJoystickMove]
    by blast
  have g: "fst (onEnd ?p ?s1)
              = \<lparr>translateX = \<lparr>current = 45, running = Some ?spring\<rparr>,
                 translateY = \<lparr>current = 0, running = None\<rparr>\<rparr>"
    unfolding g0 by (simp add: s1 set_animation_def)
  have h: "animatedStyle (fst (onUpdate ?p ?e initial_joystick)) = (45, 0)"
    by (simp add: s1 animatedStyle_def)
  from a b c d f g h show ?thesis
    by simp
qed

section \<open>Facts about the frame callback\<close>

lemma tick_moving:
  assumes "joystickX g \<noteq> 0 \<or> joystickY g \<noteq> 0"
  shows "tick width height speed csize g =
           g\<lparr>characterX :=
               max (csize / 2) (min (width - csize / 2) (characterX g + joystickX g * speed)),
             characterY :=
               max (csize / 2) (min (height - csize / 2) (characterY g + joystickY g * speed))\<rparr>"
  using assms by (simp add: tick_def Let_def)

lemma tick_idle:
  assumes "joystickX g = 0" and "joystickY g = 0"
  shows "tick width height speed csize g = g"
  using assms by (simp add: tick_def)

lemma tick_inBounds:
  assumes "csize \<le> width" and "csize \<le> height" and "inBounds width height csize g"
  shows "inBounds width height csize (tick width height speed csize g)"
proof (cases "joystickX g \<noteq> 0 \<or> joystickY g \<noteq> 0")
  case True
  have "csize / 2 \<le> width - csize / 2" and "csize / 2 \<le> height - csize / 2"
    using assms(1,2) by (simp_all add: field_simps)
  then show ?thesis
    by (simp add: tick_moving [OF True] inBounds_def)
next
  case False
  with assms(3) show ?thesis
    by (simp add: tick_idle)
qed

lemma step_inBounds:
  assumes "csize \<le> width" and "csize \<le> height" and "inBounds width height csize g"
  shows "inBounds width height csize (step width height speed csize ev g)"
proof (cases ev)
  case Frame
  with assms show ?thesis
    by (simp add: tick_inBounds)
next
  case (JoystickMove x y)
  with assms(3) show ?thesis
    by (simp add: handleJoystickMove_def inBounds_def)
qed

lemma run_inBounds:
  assumes "csize \<le> width" and "csize \<le> height" and "inBounds width height csize g"
  shows "inBounds width height csize (run width height speed csize evs g)"
  using assms(3)
proof (induction evs arbitrary: g)
  case Nil
  then show ?case by simp
next
  case (Cons ev evs)
  then show ?case
    using assms(1,2) by (simp add: step_inBounds)
qed

lemma GameScreen_inBounds:
  assumes "csize \<le> width" and "csize \<le> height"
  shows "inBounds width height csize (GameScreen width height)"
  using assms by (simp add: GameScreen_def inBounds_def field_simps)

text \<open>
  Claim C4.  When the window is at least as wide and as high as the character (so that
  the rectangle of the clamp is not empty), a position inside the rectangle stays inside
  it through every sequence of frames and joystick reports, for every speed and every
  reported vector; the screen's initial position, the centre of the window, is inside.
\<close>

theorem run_keeps_position_inBounds:
  assumes "csize \<le> width" and "csize \<le> height" and "inBounds width height csize g"
  shows "inBounds width height csize (run width height speed csize evs g) \<and>
         inBounds width height csize (run width height speed csize evs (GameScreen width height))"
  using assms by (simp add: run_inBounds GameScreen_inBounds)

text \<open>Pushing against the right edge of a 1000 by 1000 window, then releasing.\<close>

theorem run_keeps_position_inBounds_witness:
  "inBounds 1000 1000 characterSize
     (run 1000 1000 moveSpeed characterSize
        [JoystickMove 1 0, Frame, Frame, JoystickMove 0 0, Frame]
        \<lparr>characterX = 973, characterY = 500, joystickX = 0, joystickY = 0\<rparr>) \<and>
   run 1000 1000 moveSpeed characterSize
        [JoystickMove 1 0, Frame, Frame, JoystickMove 0 0, Frame]
        \<lparr>characterX = 973, characterY = 500, joystickX = 0, joystickY = 0\<rparr>
     = \<lparr>characterX = 975, characterY = 500, joystickX = 0, joystickY = 0\<rparr>"
proof -
  let ?g = "\<lparr>characterX = 973, characterY = 500, joystickX = 0, joystickY = 0\<rparr>"
  have "inBounds 1000 1000 characterSize ?g"
    by (simp add: inBounds_def characterSize_def)
  then show ?thesis
    using run_keeps_position_inBounds [of characterSize 1000 1000 ?g moveSpeed
        "[JoystickMove 1 0, Frame, Frame, JoystickMove 0 0, Frame]"]
    by (simp add: characterSize_def moveSpeed_def tick_def handleJoystickMove_def)
qed

text \<open>
  Claim C5.  With a nonzero input, one tick sets each axis to the clamp of
  \<open>position + input * speed\<close>, each axis on its own: where the candidate lies within the
  bounds the axis moves by exactly \<open>input * speed\<close>, with no normalisation of the input
  vector.  The input itself is not changed.
\<close>

theorem tick_moving_clamps_each_axis:
  assumes "joystickX g \<noteq> 0 \<or> joystickY g \<noteq> 0"
  shows "characterX (tick width height speed csize g) =
           max (csize / 2) (min (width - csize / 2) (characterX g + joystickX g * speed)) \<and>
         characterY (tick width height speed csize g) =
           max (csize / 2) (min (height - csize / 2) (characterY g + joystickY g * speed)) \<and>
         (csize / 2 \<le> characterX g + joystickX g * speed \<and>
          characterX g + joystickX g * speed \<le> width - csize / 2 \<longrightarrow>
            characterX (tick width height speed csize g) = characterX g + joystickX g * speed) \<and>
         (csize / 2 \<le> characterY g + joystickY g * speed \<and>
          characterY g + joystickY g * speed \<le> height - csize / 2 \<longrightarrow>
            characterY (tick width height speed csize g) = characterY g + joystickY g * speed) \<and>
         joystickX (tick width height speed csize g) = joystickX g \<and>
         joystickY (tick width height speed csize g) = joystickY g"
  unfolding tick_moving [OF assms]
  by (auto simp: max_def min_def)

text \<open>
  The diagonal scenario, where both axes move by 5, and the fourth scenario, where the
  right edge stops the character at 975.
\<close>

theorem tick_moving_clamps_each_axis_witness:
  "frameCallback 1000 1000 \<lparr>characterX = 500, characterY = 500, joystickX = 1, joystickY = 1\<rparr>
     = \<lparr>characterX = 505, characterY = 505, joystickX = 1, joystickY = 1\<rparr> \<and>
   frameCallback 1000 1000 \<lparr>characterX = 973, characterY = 500, joystickX = 1, joystickY = 0\<rparr>
     = \<lparr>characterX = 975, characterY = 500, joystickX = 1, joystickY = 0\<rparr>"
  using
    tick_moving_clamps_each_axis
      [of "\<lparr>characterX = 500, characterY = 500, joystickX = 1, joystickY = 1\<rparr>"
        1000 1000 moveSpeed characterSize]
    tick_moving_clamps_each_axis
      [of "\<lparr>characterX = 973, characterY = 500, joystickX = 1, joystickY = 0\<rparr>"
        1000 1000 moveSpeed characterSize]
  by (simp add: frameCallback_def moveSpeed_def characterSize_def tick_def)

text \<open>
  Claim C6.  With the zero input vector a tick returns the state it was given, for every
  position (inside the bounds or not) and every speed; so does any number of such ticks.
\<close>

theorem tick_zero_input_unchanged:
  assumes "joystickX g = 0" and "joystickY g = 0"
  shows "tick width height speed csize g = g \<and>
         ((tick width height speed csize) ^^ n) g = g"
proof -
  have one: "tick width height speed csize g = g"
    using assms by (rule tick_idle)
  have "((tick width height speed csize) ^^ n) g = g"
    by (induction n) (simp_all add: one)
  with one show ?thesis
    by simp
qed

text \<open>Three idle frames at a position outside the bounds: no clamp is applied.\<close>

theorem tick_zero_input_unchanged_witness:
  "((frameCallback 1000 1000) ^^ 3)
      \<lparr>characterX = 2000, characterY = - 7, joystickX = 0, joystickY = 0\<rparr>
     = \<lparr>characterX = 2000, characterY = - 7, joystickX = 0, joystickY = 0\<rparr>"
proof -
  have eq: "frameCallback 1000 1000 = tick 1000 1000 moveSpeed characterSize"
    by (rule ext) (simp add: frameCallback_def)
  show ?thesis
    unfolding eq
    using tick_zero_input_unchanged
      [of "\<lparr>characterX = 2000, characterY = - 7, joystickX = 0, joystickY = 0\<rparr>"
        1000 1000 moveSpeed characterSize 3]
    by simp
qed

text \<open>
  Claim C10.  With a nonzero input, on an axis whose upper bound lies below its lower
  bound one tick sets the position to the lower bound; on an axis whose bounds are in
  order one tick lands between them, wherever the position was before.
\<close>

theorem tick_degenerate_bounds_give_min:
  assumes "joystickX g \<noteq> 0 \<or> joystickY g \<noteq> 0"
  shows "(width - csize / 2 < csize / 2 \<longrightarrow>
            characterX (tick width height speed csize g) = csize / 2) \<and>
         (height - csize / 2 < csize / 2 \<longrightarrow>
            characterY (tick width height speed csize g) = csize / 2) \<and>
         (csize / 2 \<le> width - csize / 2 \<longrightarrow>
            csize / 2 \<le> characterX (tick width height speed csize g) \<and>
            characterX (tick width height speed csize g) \<le> width - csize / 2) \<and>
         (csize / 2 \<le> height - csize / 2 \<longrightarrow>
            csize / 2 \<le> characterY (tick width height speed csize g) \<and>
            characterY (tick width height speed csize g) \<le> height - csize / 2)"
  unfolding tick_moving [OF assms]
  by (auto simp: max_def min_def)

text \<open>
  A window 40 wide and 1000 high: the horizontal bounds are \<open>25\<close> and \<open>15\<close>, and the
  character starts far below the window.
\<close>

theorem tick_degenerate_bounds_give_min_witness:
  "frameCallback 40 1000 \<lparr>characterX = 20, characterY = 5000, joystickX = 0, joystickY = - 1\<rparr>
     = \<lparr>characterX = 25, characterY = 975, joystickX = 0, joystickY = - 1\<rparr>"
  using tick_degenerate_bounds_give_min
      [of "\<lparr>characterX = 20, characterY = 5000, joystickX = 0, joystickY = - 1\<rparr>"
        40 characterSize 1000 moveSpeed]
  by (simp add: frameCallback_def moveSpeed_def characterSize_def tick_def)

end
